theory Spec2Isabelle
  imports Complex_Main
begin

section \<open>Numbers\<close>

text \<open>
  Every number of the TypeScript source is an IEEE-754 binary64 value. The embedding
  represents a finite number by the real it denotes and writes the rounding that follows
  each arithmetic operation as an explicit operator \<open>rnd\<close>, which every function takes
  as its first argument. Two roundings are used:
  \<^item> \<open>exact\<close>, the identity: arithmetic over the reals;
  \<^item> \<open>binary64\<close>: round to nearest, ties to even, with a 53-bit significand and the
    subnormal range of binary64.
  Comparisons, \<open>Math.abs\<close>, \<open>Math.max\<close>, \<open>Math.min\<close> and \<open>Math.round\<close> are exact
  on binary64 values and carry no rounding. A decimal literal that is not a binary64
  value is written \<open>rnd (n / d)\<close>. NaN and the infinities are not represented: a
  quotient whose divisor is zero has HOL's value \<open>x / 0 = 0\<close> where the source has
  NaN or an infinity, and overflow beyond the binary64 range is not modelled.
\<close>

type_synonym rounding = "real \<Rightarrow> real"

definition exact :: rounding where
  "exact x = x"

declare exact_def [simp]

text \<open>Round to the nearest integer, ties to the even one.\<close>

definition rne :: "real \<Rightarrow> int" where
  "rne q = (if q - of_int \<lfloor>q\<rfloor> < 1 / 2 then \<lfloor>q\<rfloor>
            else if 1 / 2 < q - of_int \<lfloor>q\<rfloor> then \<lfloor>q\<rfloor> + 1
            else if even \<lfloor>q\<rfloor> then \<lfloor>q\<rfloor> else \<lfloor>q\<rfloor> + 1)"

text \<open>
  \<open>expo n x\<close> is the binary exponent of a positive \<open>x\<close>, the \<open>e\<close> with
  \<open>2^e \<le> x < 2^(e+1)\<close>, found in at most \<open>n\<close> halvings or doublings.
\<close>

fun expo :: "nat \<Rightarrow> real \<Rightarrow> int" where
  "expo n x = (if n = 0 then 0
               else if x < 1 then expo (n - 1) (2 * x) - 1
               else if 2 \<le> x then expo (n - 1) (x / 2) + 1
               else 0)"

declare expo.simps [simp del]

definition round_at :: "int \<Rightarrow> real \<Rightarrow> real" where
  "round_at e x = sgn x * (of_int (rne (\<bar>x\<bar> / 2 powi (e - 52))) * 2 powi (e - 52))"

definition binary64 :: rounding where
  "binary64 x = (if x = 0 then 0 else round_at (max (expo 1100 \<bar>x\<bar>) (- 1022)) x)"

text \<open>\<open>Math.round\<close>: the nearest integer, a tie going up.\<close>

definition Math_round :: "real \<Rightarrow> int" where
  "Math_round x = \<lfloor>x + 1 / 2\<rfloor>"

text \<open>\<open>xs.reduce((sum, x) => sum + x, s)\<close>, a rounding after every addition.\<close>

fun js_sum :: "rounding \<Rightarrow> real \<Rightarrow> real list \<Rightarrow> real" where
  "js_sum rnd s [] = s"
| "js_sum rnd s (x # xs) = js_sum rnd (rnd (s + x)) xs"

text \<open>
  An array element that may be \<open>undefined\<close> is a \<open>real option\<close>. \<open>js_last\<close> is
  \<open>xs[xs.length - 1]\<close>, which is \<open>undefined\<close> on the empty array; \<open>truthy\<close> is
  the test a condition applies to such a value (\<open>undefined\<close> and \<open>0\<close> are falsy), and
  \<open>or_default v d\<close> is \<open>v || d\<close>.
\<close>

definition js_last :: "'a option list \<Rightarrow> 'a option" where
  "js_last xs = (if xs = [] then None else last xs)"

definition truthy :: "real option \<Rightarrow> bool" where
  "truthy v = (case v of None \<Rightarrow> False | Some x \<Rightarrow> x \<noteq> 0)"

definition or_default :: "real option \<Rightarrow> real \<Rightarrow> real" where
  "or_default v d = (case v of None \<Rightarrow> d | Some x \<Rightarrow> if x \<noteq> 0 then x else d)"

text \<open>\<open>a < b\<close> and \<open>a > b\<close> on possibly undefined numbers: false when either is undefined.\<close>

definition opt_less :: "real option \<Rightarrow> real option \<Rightarrow> bool" where
  "opt_less a b = (case (a, b) of (Some x, Some y) \<Rightarrow> x < y | _ \<Rightarrow> False)"

section \<open>Candles\<close>

record CandleData =
  time :: int
  open_c :: real
  high :: real
  close :: real
  low :: real
  volume :: real

section \<open>Indicator library (technicalAnalysis.ts)\<close>

subsection \<open>calculateRSI\<close>

text \<open>\<open>closePrices[i] - closePrices[i - 1]\<close> for \<open>i = 1 .. length - 1\<close>.\<close>

fun price_changes :: "rounding \<Rightarrow> real list \<Rightarrow> real list" where
  "price_changes rnd (a # b # xs) = rnd (b - a) # price_changes rnd (b # xs)"
| "price_changes rnd [a] = []"
| "price_changes rnd [] = []"

definition gain_of :: "real \<Rightarrow> real" where
  "gain_of change = (if change > 0 then change else 0)"

definition loss_of :: "real \<Rightarrow> real" where
  "loss_of change = (if change < 0 then \<bar>change\<bar> else 0)"

definition rsi_value :: "rounding \<Rightarrow> real \<Rightarrow> real \<Rightarrow> real" where
  "rsi_value rnd avgGain avgLoss =
     (if avgLoss = 0 then 100
      else rnd (100 - rnd (100 / rnd (1 + rnd (avgGain / avgLoss)))))"

text \<open>The smoothing loop over \<open>gains[i]\<close>, \<open>losses[i]\<close> for \<open>i = period .. gains.length - 1\<close>.\<close>

fun rsi_smooth :: "rounding \<Rightarrow> nat \<Rightarrow> real \<Rightarrow> real \<Rightarrow> real list \<Rightarrow> real list \<Rightarrow> real list" where
  "rsi_smooth rnd period avgGain avgLoss (g # gs) (l # ls) =
     rsi_value rnd (rnd (rnd (rnd (avgGain * (real period - 1)) + g) / real period))
                   (rnd (rnd (rnd (avgLoss * (real period - 1)) + l) / real period))
     # rsi_smooth rnd period (rnd (rnd (rnd (avgGain * (real period - 1)) + g) / real period))
                             (rnd (rnd (rnd (avgLoss * (real period - 1)) + l) / real period)) gs ls"
| "rsi_smooth rnd period avgGain avgLoss [] ls = []"
| "rsi_smooth rnd period avgGain avgLoss gs [] = []"

text \<open>
  The result is padded on the left with \<open>period\<close> undefined entries. The callers pass
  \<open>period = 14\<close>; for \<open>period = 0\<close> the source divides by zero.
\<close>

definition calculateRSI :: "rounding \<Rightarrow> CandleData list \<Rightarrow> nat \<Rightarrow> real option list" where
  "calculateRSI rnd candles period =
     (if length candles < period + 1 then replicate (length candles) (Some 50)
      else
        let closePrices = map close candles;
            changes = price_changes rnd closePrices;
            gains = map gain_of changes;
            losses = map loss_of changes;
            avgGain = rnd (js_sum rnd 0 (take period gains) / real period);
            avgLoss = rnd (js_sum rnd 0 (take period losses) / real period)
        in replicate period None @
           map Some (rsi_value rnd avgGain avgLoss #
                     rsi_smooth rnd period avgGain avgLoss (drop period gains) (drop period losses)))"

subsection \<open>calculateEMA\<close>

text \<open>\<open>ema[i] = (prices[i] - ema[i - 1]) * multiplier + ema[i - 1]\<close>, from the seed on.\<close>

fun ema_run :: "rounding \<Rightarrow> real \<Rightarrow> real \<Rightarrow> real list \<Rightarrow> real list" where
  "ema_run rnd multiplier prev [] = [prev]"
| "ema_run rnd multiplier prev (p # ps) =
     prev # ema_run rnd multiplier (rnd (rnd (rnd (p - prev) * multiplier) + prev)) ps"

text \<open>
  The array starts as \<open>prices.length\<close> undefined entries; \<open>ema[period - 1] = sma\<close>
  extends it when \<open>period > prices.length\<close>, which leaves \<open>period - 1\<close> undefined
  entries before the seed in either case. The callers pass \<open>period\<close> 8, 21 and 50;
  for \<open>period = 0\<close> the source divides by zero.
\<close>

definition calculateEMA :: "rounding \<Rightarrow> real list \<Rightarrow> nat \<Rightarrow> real option list" where
  "calculateEMA rnd prices period =
     (let sma = rnd (js_sum rnd 0 (take period prices) / real period);
          multiplier = rnd (2 / (real period + 1))
      in replicate (period - 1) None @ map Some (ema_run rnd multiplier sma (drop period prices)))"

subsection \<open>calculateATR (technicalAnalysis.ts)\<close>

definition true_range :: "rounding \<Rightarrow> CandleData \<Rightarrow> CandleData \<Rightarrow> real" where
  "true_range rnd prev cur =
     max (max (rnd (high cur - low cur)) \<bar>rnd (high cur - close prev)\<bar>)
         \<bar>rnd (low cur - close prev)\<bar>"

text \<open>The true range of \<open>candles[i]\<close> against \<open>candles[i - 1]\<close> for \<open>i = 1 .. length - 1\<close>.\<close>

fun trueRanges :: "rounding \<Rightarrow> CandleData list \<Rightarrow> real list" where
  "trueRanges rnd (a # b # cs) = true_range rnd a b # trueRanges rnd (b # cs)"
| "trueRanges rnd [a] = []"
| "trueRanges rnd [] = []"

text \<open>\<open>xs.slice(-n)\<close>: the last \<open>n\<close> elements, and the whole array for \<open>n = 0\<close>.\<close>

definition slice_last :: "nat \<Rightarrow> 'a list \<Rightarrow> 'a list" where
  "slice_last n xs = (if n = 0 then xs else drop (length xs - n) xs)"

definition ta_calculateATR :: "rounding \<Rightarrow> CandleData list \<Rightarrow> nat \<Rightarrow> real" where
  "ta_calculateATR rnd candles period =
     (if length candles < period then 0
      else rnd (js_sum rnd 0 (slice_last period (trueRanges rnd candles)) / real period))"

section \<open>Backtest simulator (aiTrading.ts)\<close>

subsection \<open>calculateATR (the module's own)\<close>

text \<open>
  The loop \<open>for (i = 1; i < period + 1; i++)\<close> adds the true range of
  \<open>candles[length - i]\<close> against \<open>candles[length - i - 1]\<close>, the newest first; the
  guard makes both indices valid.
\<close>

fun atr_loop :: "rounding \<Rightarrow> CandleData list \<Rightarrow> nat \<Rightarrow> nat \<Rightarrow> real \<Rightarrow> real" where
  "atr_loop rnd candles i 0 trSum = trSum"
| "atr_loop rnd candles i (Suc n) trSum =
     atr_loop rnd candles (Suc i) n
       (rnd (trSum + true_range rnd (candles ! (length candles - i - 1)) (candles ! (length candles - i))))"

definition calculateATR :: "rounding \<Rightarrow> CandleData list \<Rightarrow> nat \<Rightarrow> real" where
  "calculateATR rnd candles period =
     (if length candles < period + 1 then 1
      else rnd (atr_loop rnd candles 1 period 0 / real period))"

subsection \<open>backtestStrategy\<close>

datatype PositionType = LONG | SHORT

record Trade =
  entryPrice :: real
  exitPrice :: real
  ptype :: PositionType
  profit :: real
  profitPercentage :: real
  timestamp :: int
  entryTime :: int
  exitTime :: int

text \<open>The value of \<open>profitFactor\<close>: a finite number or the literal \<open>Infinity\<close>.\<close>

datatype jsnumber = Finite real | PosInfinity

record BacktestResult =
  totalTrades :: nat
  winningTrades :: nat
  losingTrades :: nat
  winRate :: real
  finalCapital :: real
  totalReturn :: real
  maxDrawdown :: real
  netProfit :: real
  netProfitPercent :: real
  profitFactor :: jsnumber
  maxDrawdownPercent :: real
  finalBalance :: real
  trades :: "Trade list"

text \<open>The local variables of the simulation loop.\<close>

record bt_state =
  capital_s :: real
  highWaterMark_s :: real
  maxDrawdown_s :: real
  trades_s :: "Trade list"
  inPosition_s :: bool
  positionType_s :: PositionType
  entryPrice_s :: real
  entryTime_s :: int
  positionSize_s :: real

definition trade_profit :: "rounding \<Rightarrow> PositionType \<Rightarrow> real \<Rightarrow> real \<Rightarrow> real \<Rightarrow> real \<Rightarrow> real" where
  "trade_profit rnd pt psize entry exit leverage =
     (case pt of
        LONG \<Rightarrow> rnd (rnd (rnd (psize * rnd (exit - entry)) / entry) * leverage)
      | SHORT \<Rightarrow> rnd (rnd (rnd (psize * rnd (entry - exit)) / entry) * leverage))"

definition make_trade :: "rounding \<Rightarrow> bt_state \<Rightarrow> real \<Rightarrow> real \<Rightarrow> int \<Rightarrow> Trade" where
  "make_trade rnd st exit p t =
     \<lparr> entryPrice = entryPrice_s st, exitPrice = exit, ptype = positionType_s st, profit = p,
       profitPercentage = rnd (rnd (p / positionSize_s st) * 100),
       timestamp = t, entryTime = entryTime_s st, exitTime = t \<rparr>"

text \<open>The block under \<open>if (exitSignal)\<close>.\<close>

definition exit_position :: "rounding \<Rightarrow> real \<Rightarrow> real \<Rightarrow> int \<Rightarrow> bt_state \<Rightarrow> bt_state" where
  "exit_position rnd leverage exit t st =
     (let p = trade_profit rnd (positionType_s st) (positionSize_s st) (entryPrice_s st) exit leverage;
          cap = rnd (capital_s st + p);
          st1 = st\<lparr>capital_s := cap\<rparr>;
          st2 = (if cap > highWaterMark_s st1 then st1\<lparr>highWaterMark_s := cap\<rparr>
                 else let drawdown = rnd (rnd (highWaterMark_s st1 - cap) / highWaterMark_s st1)
                      in if drawdown > maxDrawdown_s st1 then st1\<lparr>maxDrawdown_s := drawdown\<rparr>
                         else st1)
      in st2\<lparr>trades_s := trades_s st2 @ [make_trade rnd st exit p t], inPosition_s := False\<rparr>)"

text \<open>
  One iteration of \<open>for (i = 50; i < candles.length - 1; i++)\<close>. The window
  \<open>candles.slice(i - 50, i + 1)\<close> has 51 candles at every such \<open>i\<close>. The source also
  calls \<open>calculateATR\<close> on entry and never uses the result.
\<close>

definition backtest_step :: "rounding \<Rightarrow> CandleData list \<Rightarrow> real \<Rightarrow> real \<Rightarrow> nat \<Rightarrow> bt_state \<Rightarrow> bt_state" where
  "backtest_step rnd candles leverage riskPerTrade i st =
     (let windowCandles = take 51 (drop (i - 50) candles);
          currentRsi = or_default (js_last (calculateRSI rnd windowCandles 14)) 50;
          closePrices = map close windowCandles;
          currentEma8 = js_last (calculateEMA rnd closePrices 8);
          currentEma21 = js_last (calculateEMA rnd closePrices 21);
          currentPrice = close (last windowCandles);
          st1 = (if inPosition_s st then
                   (if (case positionType_s st of
                          LONG \<Rightarrow> currentRsi > 70 \<or>
                                  (truthy currentEma8 \<and> truthy currentEma21 \<and> opt_less currentEma8 currentEma21)
                        | SHORT \<Rightarrow> currentRsi < 30 \<or>
                                  (truthy currentEma8 \<and> truthy currentEma21 \<and> opt_less currentEma21 currentEma8))
                    then exit_position rnd leverage currentPrice (time (candles ! i)) st
                    else st)
                 else st)
      in if \<not> inPosition_s st1 then
           (if currentRsi < 30 \<and> truthy currentEma8 \<and> truthy currentEma21 \<and> opt_less currentEma21 currentEma8
            then st1\<lparr>entryPrice_s := currentPrice, entryTime_s := time (candles ! i), positionType_s := LONG,
                     positionSize_s := rnd (capital_s st1 * rnd (riskPerTrade / 100)), inPosition_s := True\<rparr>
            else if currentRsi > 70 \<and> truthy currentEma8 \<and> truthy currentEma21 \<and> opt_less currentEma8 currentEma21
            then st1\<lparr>entryPrice_s := currentPrice, entryTime_s := time (candles ! i), positionType_s := SHORT,
                     positionSize_s := rnd (capital_s st1 * rnd (riskPerTrade / 100)), inPosition_s := True\<rparr>
            else st1)
         else st1)"

fun backtest_loop :: "rounding \<Rightarrow> CandleData list \<Rightarrow> real \<Rightarrow> real \<Rightarrow> nat list \<Rightarrow> bt_state \<Rightarrow> bt_state" where
  "backtest_loop rnd candles leverage riskPerTrade [] st = st"
| "backtest_loop rnd candles leverage riskPerTrade (i # is) st =
     backtest_loop rnd candles leverage riskPerTrade is (backtest_step rnd candles leverage riskPerTrade i st)"

text \<open>The forced close after the loop: the capital and the ledger change, the drawdown does not.\<close>

definition close_open_position :: "rounding \<Rightarrow> CandleData list \<Rightarrow> real \<Rightarrow> bt_state \<Rightarrow> bt_state" where
  "close_open_position rnd candles leverage st =
     (if inPosition_s st then
        (let exit = close (last candles);
             p = trade_profit rnd (positionType_s st) (positionSize_s st) (entryPrice_s st) exit leverage
         in st\<lparr>capital_s := rnd (capital_s st + p),
                trades_s := trades_s st @ [make_trade rnd st exit p (time (last candles))]\<rparr>)
      else st)"

definition initial_state :: "real \<Rightarrow> bt_state" where
  "initial_state initialCapital =
     \<lparr> capital_s = initialCapital, highWaterMark_s = initialCapital, maxDrawdown_s = 0, trades_s = [],
       inPosition_s = False, positionType_s = LONG, entryPrice_s = 0, entryTime_s = 0, positionSize_s = 0 \<rparr>"

definition profit_factor :: "rounding \<Rightarrow> Trade list \<Rightarrow> jsnumber" where
  "profit_factor rnd ts =
     (let totalProfit = js_sum rnd 0 (map profit (filter (\<lambda>t. profit t > 0) ts));
          totalLoss = \<bar>js_sum rnd 0 (map profit (filter (\<lambda>t. profit t \<le> 0) ts))\<bar>
      in if totalLoss > 0 then Finite (rnd (totalProfit / totalLoss))
         else if totalProfit > 0 then PosInfinity else Finite 0)"

text \<open>The result of the guard \<open>candles.length < 50\<close>.\<close>

definition empty_result :: "real \<Rightarrow> BacktestResult" where
  "empty_result initialCapital =
        \<lparr> totalTrades = 0, winningTrades = 0, losingTrades = 0, winRate = 0,
          finalCapital = initialCapital, totalReturn = 0, maxDrawdown = 0, netProfit = 0,
          netProfitPercent = 0, profitFactor = Finite 0, maxDrawdownPercent = 0,
          finalBalance = initialCapital, trades = [] \<rparr>"

text \<open>
  The statistics after the loop. The parameters \<open>aiStrategy\<close> and \<open>options\<close> of
  the source are never read by the body and are left out.
\<close>

definition statistics :: "rounding \<Rightarrow> real \<Rightarrow> bt_state \<Rightarrow> BacktestResult" where
  "statistics rnd initialCapital st =
     \<lparr> totalTrades = length (trades_s st),
             winningTrades = length (filter (\<lambda>t. profit t > 0) (trades_s st)),
             losingTrades = length (filter (\<lambda>t. profit t \<le> 0) (trades_s st)),
             winRate = (if length (trades_s st) > 0 then rnd (rnd (real (length (filter (\<lambda>t. profit t > 0) (trades_s st))) / real (length (trades_s st))) * 100) else 0),
             finalCapital = capital_s st,
             totalReturn = rnd (rnd (rnd (capital_s st - initialCapital) / initialCapital) * 100),
             maxDrawdown = maxDrawdown_s st,
             netProfit = rnd (capital_s st - initialCapital),
             netProfitPercent = rnd (rnd (rnd (capital_s st - initialCapital) / initialCapital) * 100),
             profitFactor = profit_factor rnd (trades_s st),
             maxDrawdownPercent = rnd (maxDrawdown_s st * 100),
             finalBalance = capital_s st,
             trades = trades_s st \<rparr>"

definition backtestStrategy :: "rounding \<Rightarrow> CandleData list \<Rightarrow> real \<Rightarrow> real \<Rightarrow> real \<Rightarrow> BacktestResult" where
  "backtestStrategy rnd candles initialCapital leverage riskPerTrade =
     (if length candles < 50 then empty_result initialCapital
      else statistics rnd initialCapital
             (close_open_position rnd candles leverage
                (backtest_loop rnd candles leverage riskPerTrade [50 ..< length candles - 1]
                   (initial_state initialCapital))))"

section \<open>Example inputs\<close>

text \<open>A candle at time \<open>t\<close> whose four prices are all \<open>c\<close>, and the series with given closes.\<close>

definition flat_candle :: "int \<Rightarrow> real \<Rightarrow> CandleData" where
  "flat_candle t c = \<lparr> time = t, open_c = c, high = c, close = c, low = c, volume = 1 \<rparr>"

definition candles_of :: "real list \<Rightarrow> CandleData list" where
  "candles_of cs = map (\<lambda>(t, c). flat_candle (int t) c) (enumerate 0 cs)"

text \<open>
  52 closes: a halving after the first candle, a flat stretch, two rising candles that
  open a long position at index 50, and a last candle at \<open>x\<close>, where the position
  is closed.
\<close>

definition example_closes :: "real \<Rightarrow> real list" where
  "example_closes x = 196 # replicate 48 98 @ [99, 100, x]"

section \<open>Invariants of the simulation\<close>

text \<open>The running capital is the initial capital plus the ledger's profits, added in order.\<close>

definition ledger_closed :: "rounding \<Rightarrow> real \<Rightarrow> bt_state \<Rightarrow> bool" where
  "ledger_closed rnd c0 st = (capital_s st = js_sum rnd c0 (map profit (trades_s st)))"

section \<open>Properties\<close>

subsection \<open>Sums\<close>

lemma js_sum_append: "js_sum rnd s (xs @ ys) = js_sum rnd (js_sum rnd s xs) ys"
  by (induction xs arbitrary: s) simp_all

lemma js_sum_exact: "js_sum exact s xs = s + sum_list xs"
  by (induction xs arbitrary: s) simp_all

subsection \<open>The example series\<close>

lemma length_candles_of [simp]: "length (candles_of cs) = length cs"
  by (simp add: candles_of_def)

lemma close_candles_of [simp]: "map close (candles_of cs) = cs"
proof -
  have "map close (candles_of cs) = map snd (enumerate 0 cs)"
    by (simp add: candles_of_def flat_candle_def case_prod_beta comp_def)
  then show ?thesis by simp
qed

lemma nth_candles_of [simp]: "i < length cs \<Longrightarrow> candles_of cs ! i = flat_candle (int i) (cs ! i)"
  by (simp add: candles_of_def nth_enumerate_eq)

lemma last_candles_of [simp]:
  assumes ne: "cs \<noteq> []"
  shows "last (candles_of cs) = flat_candle (int (length cs - 1)) (last cs)"
proof -
  from ne have "candles_of cs \<noteq> []" by (metis length_candles_of length_0_conv)
  then have "last (candles_of cs) = candles_of cs ! (length cs - 1)"
    by (simp add: last_conv_nth)
  also have "\<dots> = flat_candle (int (length cs - 1)) (cs ! (length cs - 1))"
    using ne by simp
  finally show ?thesis using ne by (simp add: last_conv_nth)
qed

lemma window_closes [simp]: "map close (take n (drop k (candles_of cs))) = take n (drop k cs)"
  by (simp flip: take_map drop_map)

lemma window_closes0 [simp]: "map close (take n (candles_of cs)) = take n cs"
  by (simp flip: take_map)

lemma close_last_window [simp]:
  "take n (drop k cs) \<noteq> [] \<Longrightarrow>
     close (last (take n (drop k (candles_of cs)))) = last (take n (drop k cs))"
  by (metis last_map window_closes map_is_Nil_conv)

lemma close_last_window0 [simp]:
  "take n cs \<noteq> [] \<Longrightarrow> close (last (take n (candles_of cs))) = last (take n cs)"
  by (metis last_map window_closes0 map_is_Nil_conv)

lemma example_closes_explicit:
  "example_closes x = [196, 98, 98, 98, 98, 98, 98, 98, 98, 98, 98, 98, 98, 98, 98, 98, 98, 98, 98, 98, 98, 98, 98, 98, 98, 98, 98, 98, 98, 98, 98, 98, 98, 98, 98, 98, 98, 98, 98, 98, 98, 98, 98, 98, 98, 98, 98, 98, 98, 99, 100, x]"
  by (simp add: example_closes_def numeral_eq_Suc)

lemmas step_defs = backtest_step_def exit_position_def make_trade_def trade_profit_def
  calculateRSI_def calculateEMA_def rsi_value_def gain_of_def loss_of_def
  js_last_def truthy_def or_default_def opt_less_def Let_def

text \<open>The single iteration \<open>i = 50\<close> on the example opens a long position at 100.\<close>

lemma example_loop:
  "backtest_loop exact (candles_of (example_closes x)) 2 10 [50 ..< 51] (initial_state 1000) =
     \<lparr> capital_s = 1000, highWaterMark_s = 1000, maxDrawdown_s = 0, trades_s = [],
       inPosition_s = True, positionType_s = LONG, entryPrice_s = 100, entryTime_s = 50,
       positionSize_s = 100 \<rparr>"
  by (simp add: step_defs initial_state_def example_closes_explicit flat_candle_def)

lemma example_length: "length (example_closes x) = 52"
  by (simp add: example_closes_def)

lemma example_range: "[50 ..< length (candles_of (example_closes x)) - 1] = [50 ..< 51]"
  by (simp add: example_length)

lemma example_run_win:
  "backtestStrategy exact (candles_of (example_closes 110)) 1000 2 10 =
     \<lparr> totalTrades = 1, winningTrades = 1, losingTrades = 0, winRate = 100,
       finalCapital = 1020, totalReturn = 2, maxDrawdown = 0, netProfit = 20,
       netProfitPercent = 2, profitFactor = PosInfinity, maxDrawdownPercent = 0,
       finalBalance = 1020,
       trades = [\<lparr> entryPrice = 100, exitPrice = 110, ptype = LONG, profit = 20,
                   profitPercentage = 20, timestamp = 51, entryTime = 50, exitTime = 51 \<rparr>] \<rparr>"
  unfolding backtestStrategy_def example_range example_loop
  by (simp add: example_length example_closes_def flat_candle_def statistics_def
      profit_factor_def close_open_position_def make_trade_def trade_profit_def Let_def)

lemma example_run_loss:
  "backtestStrategy exact (candles_of (example_closes 90)) 1000 2 10 =
     \<lparr> totalTrades = 1, winningTrades = 0, losingTrades = 1, winRate = 0,
       finalCapital = 980, totalReturn = - 2, maxDrawdown = 0, netProfit = - 20,
       netProfitPercent = - 2, profitFactor = Finite 0, maxDrawdownPercent = 0,
       finalBalance = 980,
       trades = [\<lparr> entryPrice = 100, exitPrice = 90, ptype = LONG, profit = - 20,
                   profitPercentage = - 20, timestamp = 51, entryTime = 50, exitTime = 51 \<rparr>] \<rparr>"
  unfolding backtestStrategy_def example_range example_loop
  by (simp add: example_length example_closes_def flat_candle_def statistics_def
      profit_factor_def close_open_position_def make_trade_def trade_profit_def Let_def)

subsection \<open>The guard on short inputs\<close>

text \<open>
  C5. On fewer than 50 candles \<open>backtestStrategy\<close> returns the all-zero result: no trades,
  zero win rate, return, drawdown, net profit and profit factor, an empty ledger, and the
  initial capital as final capital. The function is total, so no input raises.
\<close>

theorem backtestStrategy_short_input:
  assumes "length candles < 50"
  shows "backtestStrategy rnd candles initialCapital leverage riskPerTrade =
           \<lparr> totalTrades = 0, winningTrades = 0, losingTrades = 0, winRate = 0,
             finalCapital = initialCapital, totalReturn = 0, maxDrawdown = 0, netProfit = 0,
             netProfitPercent = 0, profitFactor = Finite 0, maxDrawdownPercent = 0,
             finalBalance = initialCapital, trades = [] \<rparr>"
  using assms by (simp add: backtestStrategy_def empty_result_def)

theorem backtestStrategy_short_input_witness:
  "length ([] :: CandleData list) < 50 \<and>
   backtestStrategy binary64 [] 1000 10 2 =
           \<lparr> totalTrades = 0, winningTrades = 0, losingTrades = 0, winRate = 0,
             finalCapital = 1000, totalReturn = 0, maxDrawdown = 0, netProfit = 0,
             netProfitPercent = 0, profitFactor = Finite 0, maxDrawdownPercent = 0,
             finalBalance = 1000, trades = [] \<rparr>"
  using backtestStrategy_short_input [of "[]" binary64 1000 10 2] by simp

end
